theory Spec2Isabelle
  imports Main
begin

section \<open>The platform: dates, promises, the storage engine\<close>

subsection \<open>Date objects\<close>

text \<open>
  A JavaScript \<open>Date\<close> holds a time value, the milliseconds since the epoch, or is an
  Invalid Date (its time value is NaN). A \<open>number\<close> that stands for a time value is
  an \<open>int option\<close>, \<open>None\<close> being NaN.
\<close>

datatype Date = Date int | InvalidDate

type_synonym number = "int option"

definition TimeClip :: "int \<Rightarrow> Date" where
  "TimeClip t = (if \<bar>t\<bar> \<le> 8640000000000000 then Date t else InvalidDate)"

definition getTime :: "Date \<Rightarrow> number" where
  "getTime d = (case d of Date t \<Rightarrow> Some t | InvalidDate \<Rightarrow> None)"

definition setTime :: "Date \<Rightarrow> number \<Rightarrow> Date" where
  \<comment> \<open>\<open>d.setTime(v)\<close> replaces the time value of \<open>d\<close> by the clipped \<open>v\<close>.\<close>
  "setTime d v = (case v of None \<Rightarrow> InvalidDate | Some t \<Rightarrow> TimeClip t)"

definition plus_number :: "number \<Rightarrow> int \<Rightarrow> number" where
  "plus_number a n = (case a of None \<Rightarrow> None | Some t \<Rightarrow> Some (t + n))"

definition Date_le :: "Date \<Rightarrow> Date \<Rightarrow> bool" where
  \<comment> \<open>\<open>a <= b\<close> on two Date objects compares their time values; with NaN it is false.\<close>
  "Date_le a b =
     (case getTime a of
        None \<Rightarrow> False
      | Some s \<Rightarrow> (case getTime b of None \<Rightarrow> False | Some t \<Rightarrow> s \<le> t))"

text \<open>
  \<open>JSON.stringify\<close> writes a Date through \<open>toJSON\<close>: the ISO-8601 text of its time
  value, which keeps the milliseconds, or \<open>null\<close> for an Invalid Date. \<open>ISOString t\<close>
  stands for the ISO text of the time value \<open>t\<close>. \<open>new Date(x)\<close> on what
  \<open>JSON.parse\<close> gives back reads the time value of an ISO text and turns \<open>null\<close>
  into the epoch.
\<close>

datatype JSON_date = ISOString int | JSON_null

definition toJSON :: "Date \<Rightarrow> JSON_date" where
  "toJSON d = (case d of Date t \<Rightarrow> ISOString t | InvalidDate \<Rightarrow> JSON_null)"

definition new_Date :: "JSON_date \<Rightarrow> Date" where
  "new_Date x = (case x of ISOString t \<Rightarrow> Date t | JSON_null \<Rightarrow> Date 0)"

subsection \<open>Promises\<close>

text \<open>
  The rejection reasons of the service. The source rejects with the texts
  \<^verbatim>\<open>Database doesn't exist.\<close>, \<^verbatim>\<open>Nothing found for <key>\<close>,
  \<^verbatim>\<open>Error getting cached data <key>\<close>, \<^verbatim>\<open>Failed to delete cache: <event>\<close>,
  \<^verbatim>\<open>Failed to clear cache: <event>\<close>, with the value \<open>false\<close> when opening the
  database fails, and with the TypeError that \<open>indexedDB.open\<close> throws for version 0
  and \<open>JSON.stringify\<close> for a value it cannot write: an exception thrown in the
  executor of a promise rejects the promise.
\<close>

datatype reason =
    DatabaseDoesntExist
  | NothingFound string
  | ErrorGettingCachedData string
  | FailedToDeleteCache
  | FailedToClearCache
  | RejectedFalse
  | TypeError

text \<open>
  A promise is pending until its executor settles it. \<open>resolve\<close> and \<open>reject\<close> settle a
  pending promise and do nothing to a settled one.
\<close>

datatype 'a Promise = Pending | Resolved 'a | Rejected reason

definition resolve :: "'a Promise \<Rightarrow> 'a \<Rightarrow> 'a Promise" where
  "resolve p x = (case p of Pending \<Rightarrow> Resolved x | _ \<Rightarrow> p)"

definition reject :: "'a Promise \<Rightarrow> reason \<Rightarrow> 'a Promise" where
  "reject p e = (case p of Pending \<Rightarrow> Rejected e | _ \<Rightarrow> p)"

subsection \<open>The stored record\<close>

text \<open>
  Modelled from the spec: the interface \<open>IStoreObject\<close> (imported from \<open>../models\<close>) is
  not among the source files. The spec's data model gives the cache entry as
  \<open>{ value: T, expiration: timestamp }\<close>, and \<open>createPersistable\<close> builds exactly these
  two fields.

  The object store holds the text \<open>JSON.stringify({ value, expiration })\<close>. The model holds
  the record that this text encodes: \<open>'v\<close> ranges over the payloads that JSON carries
  unchanged (\<open>JSON.parse (JSON.stringify x) = x\<close>), and the expiration is the JSON form
  of the Date. The text of an object is never empty, so \<open>if (request.result)\<close> is the
  test that the key is present.
\<close>

record 'v IStoreObject =
  "value" :: 'v
  expiration :: JSON_date

text \<open>
  The argument \<open>data: any\<close> of \<open>put\<close>. \<open>Serializable x\<close> is a payload that JSON
  carries unchanged. \<open>Unserializable\<close> is one on which \<open>JSON.stringify\<close> throws a
  TypeError: a BigInt, or a structure with a cycle. \<open>JSON_stringify data expire\<close> is
  \<open>JSON.stringify({ value: data, expiration: expire })\<close>, with \<open>Inl\<close> for the throw.
\<close>

datatype 'v any = Serializable 'v | Unserializable

definition JSON_stringify :: "'v any \<Rightarrow> Date \<Rightarrow> reason + 'v IStoreObject" where
  "JSON_stringify data expire =
     (case data of
        Unserializable \<Rightarrow> Inl TypeError
      | Serializable x \<Rightarrow> Inr \<lparr>value = x, expiration = toJSON expire\<rparr>)"

subsection \<open>The storage engine and the console\<close>

text \<open>
  The engine keeps, for every database name, a version (0 while the database does not
  exist) and the content of the object store \<open>CacheStore\<close>. A database of this origin is
  only ever created by \<open>init\<close>, so it has that object store exactly when it exists.
  Every request is answered by a success or an error event; which one is the
  environment's choice, the field \<open>onerror\<close>. \<open>requests\<close> is the trace of the requests
  handed to the engine, \<open>console\<close> what \<open>console.log\<close> has printed, \<open>clock\<close> the time
  value that \<open>new Date()\<close> reads. \<open>blocked name\<close> says that another connection holds the
  database \<open>name\<close> open and does not close it: an upgrade of that database cannot start,
  and the open request that asks for it gets neither a success nor an error event.
\<close>

datatype request = Open string nat | Get string | Put string | Delete string | Clear

datatype log_message =
    ClearingOutVersion nat
  | CreatingVersion nat
  | FailedToStore
  | SuccessfullyStored string
  | FailedToDelete
  | FailedToClear
  | SuccessfullyCleared

record 'v IDBDatabase =
  version :: nat
  CacheStore :: "string \<rightharpoonup> 'v IStoreObject"

record 'v world =
  clock :: int
  databases :: "string \<Rightarrow> 'v IDBDatabase"
  onerror :: "request \<Rightarrow> bool"
  blocked :: "string \<Rightarrow> bool"
  requests :: "request list"
  console :: "log_message list"

definition send :: "request \<Rightarrow> 'v world \<Rightarrow> 'v world" where
  "send r w = w\<lparr>requests := requests w @ [r]\<rparr>"

definition objectStore ::
  "string \<Rightarrow> ((string \<rightharpoonup> 'v IStoreObject) \<Rightarrow> (string \<rightharpoonup> 'v IStoreObject)) \<Rightarrow> 'v world \<Rightarrow> 'v world" where
  \<comment> \<open>A write transaction on the object store of the database \<open>h\<close>.\<close>
  "objectStore h f w =
     w\<lparr>databases := (databases w)(h := (databases w h)\<lparr>CacheStore := f (CacheStore (databases w h))\<rparr>)\<rparr>"

section \<open>CacheService\<close>

text \<open>
  The class of \<^verbatim>\<open>src/unnamed/part_001\<close>. The field \<open>db\<close> is the connection: \<open>None\<close> for
  \<open>null\<close>, \<open>Some h\<close> for the handle of the database named \<open>h\<close>. Every method takes the
  world and returns its promise, as settled once the engine has answered, and the new
  world; \<open>init\<close> also returns the service, whose \<open>db\<close> it assigns. \<open>init\<close> sets no handler
  for a blocked request, so its promise stays pending when the upgrade it asks for is
  blocked.
\<close>

record CacheService =
  dbName :: string
  dbVersion :: nat
  verbose :: bool
  db :: "string option"

definition new_CacheService :: "string \<Rightarrow> nat option \<Rightarrow> bool option \<Rightarrow> CacheService" where
  \<comment> \<open>The constructor: \<open>dbVersion\<close> defaults to 1 and \<open>verbose\<close> to false.\<close>
  "new_CacheService name ver verb =
     \<lparr>dbName = name,
      dbVersion = (case ver of None \<Rightarrow> 1 | Some v \<Rightarrow> v),
      verbose = (case verb of None \<Rightarrow> False | Some b \<Rightarrow> b),
      db = None\<rparr>"

definition log :: "CacheService \<Rightarrow> log_message \<Rightarrow> 'v world \<Rightarrow> 'v world" where
  "log this message w = (if verbose this then w\<lparr>console := console w @ [message]\<rparr> else w)"

definition onupgradeneeded :: "CacheService \<Rightarrow> nat \<Rightarrow> 'v world \<Rightarrow> 'v world" where
  \<comment> \<open>The upgrade handler of \<open>init\<close>, run on a database of version \<open>oldVersion\<close>.\<close>
  "onupgradeneeded this oldVersion w =
     (let w1 = (if 0 < oldVersion
                then objectStore (dbName this) (\<lambda>s. Map.empty) (log this (ClearingOutVersion oldVersion) w)
                else w);
          w2 = log this (CreatingVersion (dbVersion this)) w1
      in objectStore (dbName this) (\<lambda>s. Map.empty) w2)"

definition setVersion :: "string \<Rightarrow> nat \<Rightarrow> 'v world \<Rightarrow> 'v world" where
  \<comment> \<open>The engine records the new version of an upgraded database.\<close>
  "setVersion name v w = w\<lparr>databases := (databases w)(name := (databases w name)\<lparr>version := v\<rparr>)\<rparr>"

definition init :: "CacheService \<Rightarrow> 'v world \<Rightarrow> bool Promise \<times> CacheService \<times> 'v world" where
  "init this w =
     (case db this of
        Some h \<Rightarrow> (Resolved True, this, w)
      | None \<Rightarrow>
          if dbVersion this = 0 then (reject Pending TypeError, this, w)
          else
            let w1 = send (Open (dbName this) (dbVersion this)) w;
                oldVersion = version (databases w1 (dbName this))
            in if onerror w1 (Open (dbName this) (dbVersion this)) \<or> dbVersion this < oldVersion
               then (reject Pending RejectedFalse, this, w1)
               else if oldVersion < dbVersion this \<and> blocked w1 (dbName this)
               then (Pending, this, w1)
               else
                 let w2 = (if oldVersion < dbVersion this
                           then setVersion (dbName this) (dbVersion this) (onupgradeneeded this oldVersion w1)
                           else w1)
                 in (resolve Pending True, this\<lparr>db := Some (dbName this)\<rparr>, w2))"

definition delete :: "CacheService \<Rightarrow> string \<Rightarrow> 'v world \<Rightarrow> unit Promise \<times> 'v world" where
  "delete this cacheKey w =
     (case db this of
        None \<Rightarrow> (reject Pending DatabaseDoesntExist, w)
      | Some h \<Rightarrow>
          let w1 = send (Delete cacheKey) w
          in if onerror w1 (Delete cacheKey)
             then (reject Pending FailedToDeleteCache, log this FailedToDelete w1)
             else (resolve Pending (),
                   log this (SuccessfullyStored cacheKey) (objectStore h (\<lambda>s. s(cacheKey := None)) w1)))"

definition get :: "CacheService \<Rightarrow> string \<Rightarrow> 'v world \<Rightarrow> 'v option Promise \<times> 'v world" where
  \<comment> \<open>The result \<open>None\<close> is \<open>undefined\<close>.\<close>
  "get this cacheKey w =
     (case db this of
        None \<Rightarrow> (reject Pending DatabaseDoesntExist, w)
      | Some h \<Rightarrow>
          let w1 = send (Get cacheKey) w
          in if onerror w1 (Get cacheKey)
             then (reject Pending (ErrorGettingCachedData cacheKey), w1)
             else
               (case CacheStore (databases w1 h) cacheKey of
                  Some storeObj \<Rightarrow>
                    let (p, w2) =
                          (if Date_le (new_Date (expiration storeObj)) (Date (clock w1))
                           then (resolve Pending None, snd (delete this cacheKey w1))
                           else (Pending, w1))
                    in (resolve p (Some (value storeObj)), w2)
                | None \<Rightarrow> (reject Pending (NothingFound cacheKey), w1)))"

definition createPersistable :: "'v any \<Rightarrow> Date option \<Rightarrow> 'v world \<Rightarrow> reason + 'v IStoreObject" where
  \<comment> \<open>\<open>expire = None\<close> is the omitted argument, \<open>undefined\<close>.\<close>
  "createPersistable data expire w =
     (let expire' =
            (case expire of
               None \<Rightarrow> setTime (Date (clock w)) (plus_number (getTime (Date (clock w))) (1 * 3600000))
             | Some d \<Rightarrow> d)
      in JSON_stringify data expire')"

definition put ::
  "CacheService \<Rightarrow> string \<Rightarrow> 'v any \<Rightarrow> Date option \<Rightarrow> 'v world \<Rightarrow> bool Promise \<times> 'v world" where
  \<comment> \<open>The argument of \<open>store.put\<close> is evaluated first: when \<open>createPersistable\<close> throws,
      the executor is left before any request is made.\<close>
  "put this cacheKey data expire w =
     (case db this of
        None \<Rightarrow> (reject Pending DatabaseDoesntExist, w)
      | Some h \<Rightarrow>
          (case createPersistable data expire w of
             Inl e \<Rightarrow> (reject Pending e, w)
           | Inr persistable \<Rightarrow>
               let w1 = send (Put cacheKey) w
               in if onerror w1 (Put cacheKey)
                  then (resolve Pending False, log this FailedToStore w1)
                  else (resolve Pending True,
                        log this (SuccessfullyStored cacheKey)
                          (objectStore h (\<lambda>s. s(cacheKey \<mapsto> persistable)) w1))))"

definition flush :: "CacheService \<Rightarrow> 'v world \<Rightarrow> unit Promise \<times> 'v world" where
  "flush this w =
     (case db this of
        None \<Rightarrow> (reject Pending DatabaseDoesntExist, w)
      | Some h \<Rightarrow>
          let w1 = send Clear w
          in if onerror w1 Clear
             then (reject Pending FailedToClearCache, log this FailedToClear w1)
             else (resolve Pending (),
                   log this SuccessfullyCleared (objectStore h (\<lambda>s. Map.empty) w1)))"

text \<open>
  The source holds a later revision of the class as well, inside \<^verbatim>\<open>src/README.md\<close>. Its
  \<open>get\<close> (lines 132 to 172) takes a second parameter \<open>throwError\<close>, \<open>true\<close> when omitted
  (\<open>None\<close>), and differs from the \<open>get\<close> above in the branch of the missing key only. It is
  \<open>get_throwError\<close> here, the two revisions having the one name.
\<close>

definition get_throwError ::
  "CacheService \<Rightarrow> string \<Rightarrow> bool option \<Rightarrow> 'v world \<Rightarrow> 'v option Promise \<times> 'v world" where
  "get_throwError this cacheKey throwError w =
     (case db this of
        None \<Rightarrow> (reject Pending DatabaseDoesntExist, w)
      | Some h \<Rightarrow>
          let w1 = send (Get cacheKey) w
          in if onerror w1 (Get cacheKey)
             then (reject Pending (ErrorGettingCachedData cacheKey), w1)
             else
               (case CacheStore (databases w1 h) cacheKey of
                  Some storeObj \<Rightarrow>
                    let (p, w2) =
                          (if Date_le (new_Date (expiration storeObj)) (Date (clock w1))
                           then (resolve Pending None, snd (delete this cacheKey w1))
                           else (Pending, w1))
                    in (resolve p (Some (value storeObj)), w2)
                | None \<Rightarrow>
                    if (case throwError of None \<Rightarrow> True | Some b \<Rightarrow> b)
                    then (reject Pending (NothingFound cacheKey), w1)
                    else (resolve Pending None, w1)))"

section \<open>DateHelper\<close>

text \<open>
  Modelled from the spec: the enum \<open>DateInterval\<close> (imported from \<open>../enums\<close>) is not among
  the source files. The spec names its members: year, quarter, month, week, day, hour,
  minute, second. The argument of \<open>dateAdd\<close> is a \<open>DateInterval option\<close>, \<open>None\<close> being a
  value that is none of the members, which the \<open>default\<close> branch of the switch receives.
\<close>

datatype DateInterval = year | quarter | month | week | day | hour | minute | second

text \<open>
  The calendar methods of \<open>Date\<close> work in the local time zone of the host, so they are
  parameters of the model. \<open>dateAdd\<close> takes the Date that \<open>new Date(date)\<close> builds from
  its text argument.
\<close>

record LocalTime =
  getFullYear :: "Date \<Rightarrow> number"
  setFullYear :: "Date \<Rightarrow> number \<Rightarrow> Date"
  getMonth :: "Date \<Rightarrow> number"
  setMonth :: "Date \<Rightarrow> number \<Rightarrow> Date"
  getDate :: "Date \<Rightarrow> number"
  setDate :: "Date \<Rightarrow> number \<Rightarrow> Date"

definition dateAdd :: "LocalTime \<Rightarrow> Date \<Rightarrow> DateInterval option \<Rightarrow> int \<Rightarrow> Date option" where
  \<comment> \<open>The result \<open>None\<close> is \<open>undefined\<close>.\<close>
  "dateAdd L date interval units =
     (let ret = date
      in case interval of
           Some year \<Rightarrow> Some (setFullYear L ret (plus_number (getFullYear L ret) units))
         | Some quarter \<Rightarrow> Some (setMonth L ret (plus_number (getMonth L ret) (3 * units)))
         | Some month \<Rightarrow> Some (setMonth L ret (plus_number (getMonth L ret) units))
         | Some week \<Rightarrow> Some (setDate L ret (plus_number (getDate L ret) (7 * units)))
         | Some day \<Rightarrow> Some (setDate L ret (plus_number (getDate L ret) units))
         | Some hour \<Rightarrow> Some (setTime ret (plus_number (getTime ret) (units * 3600000)))
         | Some minute \<Rightarrow> Some (setTime ret (plus_number (getTime ret) (units * 60000)))
         | Some second \<Rightarrow> Some (setTime ret (plus_number (getTime ret) (units * 1000)))
         | None \<Rightarrow> None)"

section \<open>Worlds and services for concrete runs\<close>

text \<open>
  \<open>silent\<close> forgets what the console has printed. \<open>origin now\<close> is an origin with no
  database yet and no other connection, at clock \<open>now\<close>, whose engine answers every
  request with a success event.
  \<open>EventCache\<close> is the service of the README, \<open>new CacheService(`EventCache`)\<close>.
  \<open>no_calendar\<close> is a host whose calendar methods answer NaN and Invalid Date; the
  branches of \<open>dateAdd\<close> for hour, minute and second call none of them.
\<close>

definition silent :: "'v world \<Rightarrow> 'v world" where
  "silent w = w\<lparr>console := []\<rparr>"

definition origin :: "int \<Rightarrow> 'v world" where
  "origin now =
     \<lparr>clock = now,
      databases = (\<lambda>name. \<lparr>version = 0, CacheStore = Map.empty\<rparr>),
      onerror = (\<lambda>r. False),
      blocked = (\<lambda>name. False),
      requests = [],
      console = []\<rparr>"

definition EventCache :: CacheService where
  "EventCache = new_CacheService ''EventCache'' None None"

definition no_calendar :: LocalTime where
  "no_calendar =
     \<lparr>getFullYear = (\<lambda>d. None), setFullYear = (\<lambda>d y. InvalidDate),
      getMonth = (\<lambda>d. None), setMonth = (\<lambda>d m. InvalidDate),
      getDate = (\<lambda>d. None), setDate = (\<lambda>d n. InvalidDate)\<rparr>"

section \<open>Facts about the methods\<close>

lemmas date_defs = Date_le_def new_Date_def getTime_def setTime_def plus_number_def
  TimeClip_def toJSON_def

lemmas world_defs = send_def objectStore_def log_def setVersion_def

lemmas run_defs = origin_def EventCache_def new_CacheService_def

subsection \<open>Promises settle once\<close>

lemma resolve_Pending [simp]: "resolve Pending x = Resolved x"
  by (simp add: resolve_def)

lemma reject_Pending [simp]: "reject Pending e = Rejected e"
  by (simp add: reject_def)

lemma resolve_settled [simp]:
  "resolve (Resolved x) y = Resolved x" "resolve (Rejected e) y = Rejected e"
  by (simp_all add: resolve_def)

lemma reject_settled [simp]:
  "reject (Resolved x) e = Resolved x" "reject (Rejected d) e = Rejected d"
  by (simp_all add: reject_def)

subsection \<open>Logging touches the console only\<close>

lemma log_quiet: "\<not> verbose this \<Longrightarrow> log this m w = w"
  by (simp add: log_def)

lemma silent_log: "silent (log this m w) = silent w"
  by (simp add: silent_def log_def)

lemma databases_log [simp]: "databases (log this m w) = databases w"
  by (simp add: log_def)

lemma requests_log [simp]: "requests (log this m w) = requests w"
  by (simp add: log_def)

lemma databases_send [simp]: "databases (send r w) = databases w"
  by (simp add: send_def)

lemma onerror_send [simp]: "onerror (send r w) = onerror w"
  by (simp add: send_def)

lemma clock_send [simp]: "clock (send r w) = clock w"
  by (simp add: send_def)

lemma requests_send [simp]: "requests (send r w) = requests w @ [r]"
  by (simp add: send_def)

lemma console_send [simp]: "console (send r w) = console w"
  by (simp add: send_def)

lemma databases_objectStore [simp]:
  "databases (objectStore h f w) = (databases w)(h := (databases w h)\<lparr>CacheStore := f (CacheStore (databases w h))\<rparr>)"
  by (simp add: objectStore_def)

lemma requests_objectStore [simp]: "requests (objectStore h f w) = requests w"
  by (simp add: objectStore_def)

lemma console_objectStore [simp]: "console (objectStore h f w) = console w"
  by (simp add: objectStore_def)

lemma silent_objectStore: "silent (objectStore h f w) = objectStore h f (silent w)"
  by (simp add: silent_def objectStore_def)

lemma silent_setVersion: "silent (setVersion h n w) = setVersion h n (silent w)"
  by (simp add: silent_def setVersion_def)

subsection \<open>delete\<close>

lemma delete_connected:
  "db this = Some h \<Longrightarrow>
     delete this k w =
       (if onerror w (Delete k)
        then (Rejected FailedToDeleteCache, log this FailedToDelete (send (Delete k) w))
        else (Resolved (),
              log this (SuccessfullyStored k) (objectStore h (\<lambda>s. s(k := None)) (send (Delete k) w))))"
  by (simp add: delete_def Let_def)

lemma requests_delete:
  "db this = Some h \<Longrightarrow> requests (snd (delete this k w)) = requests w @ [Delete k]"
  by (simp add: delete_connected)

lemma databases_delete:
  "db this = Some h \<Longrightarrow> \<not> onerror w (Delete k) \<Longrightarrow>
     CacheStore (databases (snd (delete this k w)) h) = (CacheStore (databases w h))(k := None)"
  by (simp add: delete_connected)

lemma delete_verbose:
  "fst (delete (this\<lparr>verbose := b\<rparr>) k w) = fst (delete this k w) \<and>
   silent (snd (delete (this\<lparr>verbose := b\<rparr>) k w)) = silent (snd (delete this k w))"
  by (simp add: delete_def Let_def silent_log split: option.splits)

lemma delete_quiet: "\<not> verbose this \<Longrightarrow> console (snd (delete this k w)) = console w"
  by (simp add: delete_def Let_def log_quiet split: option.splits)

subsection \<open>get\<close>

lemma get_miss:
  "db this = Some h \<Longrightarrow> \<not> onerror w (Get k) \<Longrightarrow> CacheStore (databases w h) k = None \<Longrightarrow>
     get this k w = (Rejected (NothingFound k), send (Get k) w)"
  by (simp add: get_def Let_def)

lemma get_found:
  "db this = Some h \<Longrightarrow> \<not> onerror w (Get k) \<Longrightarrow> CacheStore (databases w h) k = Some storeObj \<Longrightarrow>
   new_Date (expiration storeObj) = Date t \<Longrightarrow>
     get this k w =
       (if t \<le> clock w
        then (Resolved None, snd (delete this k (send (Get k) w)))
        else (Resolved (Some (value storeObj)), send (Get k) w))"
  by (simp add: get_def Let_def Date_le_def getTime_def)

lemma get_verbose:
  "fst (get (this\<lparr>verbose := b\<rparr>) k w) = fst (get this k w) \<and>
   silent (snd (get (this\<lparr>verbose := b\<rparr>) k w)) = silent (snd (get this k w))"
  by (simp add: get_def Let_def delete_verbose split: option.splits)

lemma get_quiet: "\<not> verbose this \<Longrightarrow> console (snd (get this k w)) = console w"
  by (simp add: get_def Let_def delete_quiet split: option.splits)

text \<open>
  The \<open>get\<close> with the single parameter is the later one with \<open>throwError\<close> true.
\<close>

lemma get_is_throwError:
  "get this k w = get_throwError this k (Some True) w"
  by (simp add: get_def get_throwError_def Let_def split: option.splits)

subsection \<open>put\<close>

lemma createPersistable_Serializable:
  "createPersistable (Serializable v) e w =
     Inr \<lparr>value = v,
          expiration = toJSON (case e of None \<Rightarrow> TimeClip (clock w + 3600000) | Some d \<Rightarrow> d)\<rparr>"
  by (simp add: createPersistable_def JSON_stringify_def getTime_def setTime_def plus_number_def
      split: option.splits)

lemma createPersistable_Unserializable: "createPersistable Unserializable e w = Inl TypeError"
  by (simp add: createPersistable_def JSON_stringify_def)

lemma createPersistable_explicit:
  "createPersistable (Serializable v) (Some e) w = Inr \<lparr>value = v, expiration = toJSON e\<rparr>"
  by (simp add: createPersistable_Serializable)


lemma put_connected:
  "db this = Some h \<Longrightarrow> createPersistable data e w = Inr p \<Longrightarrow>
     put this k data e w =
       (if onerror w (Put k)
        then (Resolved False, log this FailedToStore (send (Put k) w))
        else (Resolved True,
              log this (SuccessfullyStored k)
                (objectStore h (\<lambda>s. s(k \<mapsto> p)) (send (Put k) w))))"
  by (simp add: put_def Let_def)

lemma put_Unserializable:
  "db this = Some h \<Longrightarrow> put this k Unserializable e w = (Rejected TypeError, w)"
  by (simp add: put_def createPersistable_Unserializable)

lemma put_succeeds:
  "put this k data e w = (Resolved True, w1) \<Longrightarrow>
     \<exists>h p. db this = Some h \<and> \<not> onerror w (Put k) \<and> createPersistable data e w = Inr p \<and>
           CacheStore (databases w1 h) k = Some p"
  by (auto simp add: put_def Let_def split: option.splits if_splits sum.splits)

lemma put_verbose:
  "fst (put (this\<lparr>verbose := b\<rparr>) k data e w) = fst (put this k data e w) \<and>
   silent (snd (put (this\<lparr>verbose := b\<rparr>) k data e w)) = silent (snd (put this k data e w))"
  by (simp add: put_def Let_def silent_log split: option.splits sum.splits)

lemma put_quiet: "\<not> verbose this \<Longrightarrow> console (snd (put this k data e w)) = console w"
  by (simp add: put_def Let_def log_quiet split: option.splits sum.splits)

subsection \<open>flush\<close>

lemma flush_verbose:
  "fst (flush (this\<lparr>verbose := b\<rparr>) w) = fst (flush this w) \<and>
   silent (snd (flush (this\<lparr>verbose := b\<rparr>) w)) = silent (snd (flush this w))"
  by (simp add: flush_def Let_def silent_log split: option.splits)

lemma flush_quiet: "\<not> verbose this \<Longrightarrow> console (snd (flush this w)) = console w"
  by (simp add: flush_def Let_def log_quiet split: option.splits)

subsection \<open>init\<close>

lemma init_connected: "db this = Some h \<Longrightarrow> init this w = (Resolved True, this, w)"
  by (simp add: init_def)

lemma databases_onupgradeneeded:
  "databases (onupgradeneeded this n w) =
     (databases w)(dbName this := (databases w (dbName this))\<lparr>CacheStore := Map.empty\<rparr>)"
  by (simp add: onupgradeneeded_def Let_def)

lemma requests_onupgradeneeded: "requests (onupgradeneeded this n w) = requests w"
  by (simp add: onupgradeneeded_def Let_def)

lemma onupgradeneeded_verbose:
  "silent (onupgradeneeded (this\<lparr>verbose := b\<rparr>) n w) = silent (onupgradeneeded this n w)"
  by (simp add: onupgradeneeded_def Let_def silent_objectStore silent_log)

lemma onupgradeneeded_quiet: "\<not> verbose this \<Longrightarrow> console (onupgradeneeded this n w) = console w"
  by (simp add: onupgradeneeded_def Let_def log_quiet)

lemma init_first:
  "db this = None \<Longrightarrow> init this w = (Resolved True, this', w') \<Longrightarrow>
     this' = this\<lparr>db := Some (dbName this)\<rparr> \<and>
     w' = (if version (databases w (dbName this)) < dbVersion this
           then setVersion (dbName this) (dbVersion this)
                  (onupgradeneeded this (version (databases w (dbName this)))
                     (send (Open (dbName this) (dbVersion this)) w))
           else send (Open (dbName this) (dbVersion this)) w)"
  by (simp add: init_def Let_def split: if_splits)

lemma init_verbose:
  "fst (init (this\<lparr>verbose := b\<rparr>) w) = fst (init this w) \<and>
   db (fst (snd (init (this\<lparr>verbose := b\<rparr>) w))) = db (fst (snd (init this w))) \<and>
   silent (snd (snd (init (this\<lparr>verbose := b\<rparr>) w))) = silent (snd (snd (init this w)))"
  by (simp add: init_def Let_def silent_setVersion onupgradeneeded_verbose split: option.splits)

lemma init_quiet: "\<not> verbose this \<Longrightarrow> console (snd (snd (init this w))) = console w"
  by (simp add: init_def Let_def onupgradeneeded_quiet setVersion_def split: option.splits)

lemma IDBDatabase_fields:
  "(d :: 'v IDBDatabase)\<lparr>CacheStore := s, version := n\<rparr> = \<lparr>version = n, CacheStore = s\<rparr>"
  by (cases d) simp

section \<open>The specification's properties\<close>

subsection \<open>Expiration on read\<close>

text \<open>
  C1. The service is connected, the engine answers the read, and the key holds an entry
  whose expiration \<open>get\<close> reads as the time value \<open>t\<close>. When \<open>t\<close> is at or before the
  clock, \<open>get\<close> hands a delete request for the key to the engine after its read, the
  entry is gone once the engine has carried that request out, and the promise is
  resolved with \<open>undefined\<close>: the second \<open>resolve\<close>, with the stored value, finds the
  promise settled. The stored value is the result exactly when the clock is before \<open>t\<close>,
  and then nothing but the read reaches the engine.
\<close>

theorem get_expired_entry:
  assumes "db this = Some h" and "\<not> onerror w (Get k)"
    and "CacheStore (databases w h) k = Some storeObj"
    and "new_Date (expiration storeObj) = Date t"
  shows "(t \<le> clock w \<longrightarrow>
            fst (get this k w) = Resolved None \<and>
            requests (snd (get this k w)) = requests w @ [Get k, Delete k] \<and>
            (\<not> onerror w (Delete k) \<longrightarrow>
               CacheStore (databases (snd (get this k w)) h) = (CacheStore (databases w h))(k := None))) \<and>
         (fst (get this k w) = Resolved (Some (value storeObj)) \<longleftrightarrow> clock w < t) \<and>
         (clock w < t \<longrightarrow> snd (get this k w) = send (Get k) w)"
  using assms by (simp add: get_found requests_delete databases_delete)

theorem get_expired_entry_witness:
  "fst (get (EventCache\<lparr>db := Some ''EventCache''\<rparr>) ''A''
          (objectStore ''EventCache'' (\<lambda>s. s(''A'' \<mapsto> \<lparr>value = (1::nat), expiration = ISOString 60000\<rparr>)) (origin 61000)))
     = Resolved None \<and>
   CacheStore (databases (snd (get (EventCache\<lparr>db := Some ''EventCache''\<rparr>) ''A''
          (objectStore ''EventCache'' (\<lambda>s. s(''A'' \<mapsto> \<lparr>value = (1::nat), expiration = ISOString 60000\<rparr>)) (origin 61000))))
        ''EventCache'') ''A'' = None"
  using get_expired_entry [of "EventCache\<lparr>db := Some ''EventCache''\<rparr>" "''EventCache''"
      "objectStore ''EventCache'' (\<lambda>s. s(''A'' \<mapsto> \<lparr>value = (1::nat), expiration = ISOString 60000\<rparr>)) (origin 61000)"
      "''A''" "\<lparr>value = (1::nat), expiration = ISOString 60000\<rparr>" 60000]
  by (simp add: run_defs world_defs new_Date_def)

subsection \<open>The missing key\<close>

text \<open>
  C2. The \<open>get\<close> of the later revision takes the flag \<open>throwError\<close>, and leaving it out is
  passing \<open>true\<close>. On a connected service whose engine answers the read and whose object
  store does not hold the key, the call with \<open>true\<close> rejects with
  \<^verbatim>\<open>Nothing found for <key>\<close> and the call with \<open>false\<close> resolves with \<open>undefined\<close>; in both
  only the read reaches the engine.
\<close>

theorem get_throwError_selects_miss:
  "get_throwError this k None w = get_throwError this k (Some True) w \<and>
   (db this = Some h \<and> \<not> onerror w (Get k) \<and> CacheStore (databases w h) k = None \<longrightarrow>
      get_throwError this k (Some True) w = (Rejected (NothingFound k), send (Get k) w) \<and>
      get_throwError this k (Some False) w = (Resolved None, send (Get k) w))"
proof (intro conjI impI)
  show "get_throwError this k None w = get_throwError this k (Some True) w"
    by (simp add: get_throwError_def Let_def split: option.splits)
next
  assume "db this = Some h \<and> \<not> onerror w (Get k) \<and> CacheStore (databases w h) k = None"
  then show "get_throwError this k (Some True) w = (Rejected (NothingFound k), send (Get k) w)"
    and "get_throwError this k (Some False) w = (Resolved None, send (Get k) w)"
    by (simp_all add: get_throwError_def Let_def)
qed

theorem get_throwError_selects_miss_witness:
  "get_throwError (EventCache\<lparr>db := Some ''EventCache''\<rparr>) ''YourCacheKey'' None (origin 0 :: nat world) =
     (Rejected (NothingFound ''YourCacheKey''), send (Get ''YourCacheKey'') (origin 0)) \<and>
   get_throwError (EventCache\<lparr>db := Some ''EventCache''\<rparr>) ''YourCacheKey'' (Some True) (origin 0 :: nat world) =
     (Rejected (NothingFound ''YourCacheKey''), send (Get ''YourCacheKey'') (origin 0)) \<and>
   get_throwError (EventCache\<lparr>db := Some ''EventCache''\<rparr>) ''YourCacheKey'' (Some False) (origin 0 :: nat world) =
     (Resolved None, send (Get ''YourCacheKey'') (origin 0))"
  using get_throwError_selects_miss [of "EventCache\<lparr>db := Some ''EventCache''\<rparr>" "''YourCacheKey''" "origin 0 :: nat world" "''EventCache''"]
  by (simp add: run_defs world_defs)

subsection \<open>Writing and reading back\<close>

text \<open>
  C3. When \<open>put\<close> of a serializable value under a key with the expiration \<open>t\<close> has
  resolved with \<open>true\<close>, a \<open>get\<close> of that key in any later world that holds the same
  databases, whose engine answers the read and whose clock is before \<open>t\<close>, resolves with
  that value, and only the read reaches the engine.
\<close>

theorem put_get_roundtrip:
  assumes "put this k (Serializable v) (Some (Date t)) w = (Resolved True, w1)"
    and "databases w2 = databases w1" and "\<not> onerror w2 (Get k)" and "clock w2 < t"
  shows "get this k w2 = (Resolved (Some v), send (Get k) w2)"
proof -
  from put_succeeds [OF assms(1)] obtain h p where h: "db this = Some h"
    and p: "createPersistable (Serializable v) (Some (Date t)) w = Inr p"
    and stored: "CacheStore (databases w1 h) k = Some p"
    by blast
  from p have "p = \<lparr>value = v, expiration = ISOString t\<rparr>"
    by (simp add: createPersistable_explicit toJSON_def)
  then have entry: "CacheStore (databases w2 h) k = Some \<lparr>value = v, expiration = ISOString t\<rparr>"
    using stored assms(2) by simp
  have "new_Date (expiration \<lparr>value = v, expiration = ISOString t\<rparr>) = Date t"
    by (simp add: new_Date_def)
  from get_found [OF h assms(3) entry this] assms(4) show ?thesis by simp
qed

theorem put_get_roundtrip_witness:
  "get (EventCache\<lparr>db := Some ''EventCache''\<rparr>) ''A''
     ((snd (put (EventCache\<lparr>db := Some ''EventCache''\<rparr>) ''A'' (Serializable (1::nat)) (Some (Date 60000)) (origin 0)))\<lparr>clock := 59999\<rparr>)
   = (Resolved (Some 1),
      send (Get ''A'')
        ((snd (put (EventCache\<lparr>db := Some ''EventCache''\<rparr>) ''A'' (Serializable (1::nat)) (Some (Date 60000)) (origin 0)))\<lparr>clock := 59999\<rparr>))"
  using put_get_roundtrip [of "EventCache\<lparr>db := Some ''EventCache''\<rparr>" "''A''" "1::nat" 60000 "origin 0"
      "snd (put (EventCache\<lparr>db := Some ''EventCache''\<rparr>) ''A'' (Serializable (1::nat)) (Some (Date 60000)) (origin 0))"
      "(snd (put (EventCache\<lparr>db := Some ''EventCache''\<rparr>) ''A'' (Serializable (1::nat)) (Some (Date 60000)) (origin 0)))\<lparr>clock := 59999\<rparr>"]
  by (simp add: run_defs world_defs put_connected [OF _ createPersistable_explicit])



text \<open>
  C5, as amended. With no connection \<open>put\<close> rejects with \<^verbatim>\<open>Database doesn't exist.\<close>;
  with a connection and a value on which \<open>JSON.stringify\<close> throws it rejects with that
  TypeError; in both cases the world stays as it was, and in no other case is the promise
  rejected. With a connection and a serializable value \<open>put\<close> hands the one write to the
  engine and never rejects: it resolves with \<open>true\<close> when the engine answers with a
  success event, the key then holding the value with its expiration and the rest of the
  databases as before, and with \<open>false\<close> when the engine answers with an error event, the
  databases then unchanged.
\<close>

theorem put_settles:
  "(db this = None \<longrightarrow> put this k data e w = (Rejected DatabaseDoesntExist, w)) \<and>
   (db this \<noteq> None \<and> data = Unserializable \<longrightarrow> put this k data e w = (Rejected TypeError, w)) \<and>
   (db this = Some h \<and> data = Serializable v \<longrightarrow>
      fst (put this k data e w) = Resolved (\<not> onerror w (Put k)) \<and>
      requests (snd (put this k data e w)) = requests w @ [Put k] \<and>
      databases (snd (put this k data e w)) =
        (if onerror w (Put k) then databases w
         else (databases w)
                (h := (databases w h)
                   \<lparr>CacheStore := (CacheStore (databases w h))
                      (k \<mapsto> \<lparr>value = v,
                              expiration = toJSON (case e of None \<Rightarrow> TimeClip (clock w + 3600000)
                                                   | Some d \<Rightarrow> d)\<rparr>)\<rparr>))) \<and>
   ((\<exists>r. fst (put this k data e w) = Rejected r) \<longleftrightarrow> db this = None \<or> data = Unserializable)"
proof (intro conjI impI)
  assume "db this = None"
  then show "put this k data e w = (Rejected DatabaseDoesntExist, w)"
    by (simp add: put_def)
next
  assume "db this \<noteq> None \<and> data = Unserializable"
  then show "put this k data e w = (Rejected TypeError, w)"
    by (auto simp add: put_Unserializable)
next
  assume a: "db this = Some h \<and> data = Serializable v"
  then have run: "put this k data e w =
       (if onerror w (Put k)
        then (Resolved False, log this FailedToStore (send (Put k) w))
        else (Resolved True,
              log this (SuccessfullyStored k)
                (objectStore h (\<lambda>s. s(k \<mapsto> \<lparr>value = v,
                    expiration = toJSON (case e of None \<Rightarrow> TimeClip (clock w + 3600000)
                                         | Some d \<Rightarrow> d)\<rparr>))
                   (send (Put k) w))))"
    by (simp add: put_connected [OF _ createPersistable_Serializable])
  show "fst (put this k data e w) = Resolved (\<not> onerror w (Put k))"
    by (simp add: run)
  show "requests (snd (put this k data e w)) = requests w @ [Put k]"
    by (simp add: run)
  show "databases (snd (put this k data e w)) =
        (if onerror w (Put k) then databases w
         else (databases w)
                (h := (databases w h)
                   \<lparr>CacheStore := (CacheStore (databases w h))
                      (k \<mapsto> \<lparr>value = v,
                              expiration = toJSON (case e of None \<Rightarrow> TimeClip (clock w + 3600000)
                                                   | Some d \<Rightarrow> d)\<rparr>)\<rparr>))"
    by (simp add: run)
next
  show "(\<exists>r. fst (put this k data e w) = Rejected r) \<longleftrightarrow> db this = None \<or> data = Unserializable"
  proof (cases "db this")
    case None
    then show ?thesis by (simp add: put_def)
  next
    case (Some h)
    show ?thesis
    proof (cases data)
      case Unserializable
      with Some show ?thesis by (simp add: put_Unserializable)
    next
      case (Serializable v)
      with Some show ?thesis
        by (simp add: put_connected [OF _ createPersistable_Serializable])
    qed
  qed
qed

theorem put_settles_witness:
  "put (EventCache\<lparr>db := Some ''EventCache''\<rparr>) ''A'' (Serializable (1::nat)) None ((origin 0)\<lparr>onerror := (\<lambda>r. r = Put ''A'')\<rparr>)
     = (Resolved False, send (Put ''A'') ((origin 0)\<lparr>onerror := (\<lambda>r. r = Put ''A'')\<rparr>)) \<and>
   fst (put (EventCache\<lparr>db := Some ''EventCache''\<rparr>) ''A'' (Serializable (1::nat)) None (origin 0)) = Resolved True \<and>
   requests (snd (put (EventCache\<lparr>db := Some ''EventCache''\<rparr>) ''A'' (Serializable (1::nat)) None (origin 0))) = [Put ''A''] \<and>
   CacheStore (databases (snd (put (EventCache\<lparr>db := Some ''EventCache''\<rparr>) ''A'' (Serializable (1::nat)) None (origin 0))) ''EventCache'') ''A''
     = Some \<lparr>value = 1, expiration = ISOString 3600000\<rparr> \<and>
   put EventCache ''A'' (Serializable (1::nat)) None (origin 0) = (Rejected DatabaseDoesntExist, origin 0)"
  using put_settles [of "EventCache\<lparr>db := Some ''EventCache''\<rparr>" "''A''" "Serializable (1::nat)" None "(origin 0)\<lparr>onerror := (\<lambda>r. r = Put ''A'')\<rparr>" "''EventCache''" 1]
    put_settles [of "EventCache\<lparr>db := Some ''EventCache''\<rparr>" "''A''" "Serializable (1::nat)" None "origin 0" "''EventCache''" 1]
    put_settles [of EventCache "''A''" "Serializable (1::nat)" None "origin 0" "''EventCache''" 1]
  by (simp add: run_defs world_defs date_defs put_connected [OF _ createPersistable_Serializable])

text \<open>
  A connected service is given a value that \<open>JSON.stringify\<close> cannot write: the promise of
  \<open>put\<close> is rejected although the connection is established.
\<close>

theorem put_rejects_unserializable:
  "db (EventCache\<lparr>db := Some ''EventCache''\<rparr>) = Some ''EventCache'' \<and>
   put (EventCache\<lparr>db := Some ''EventCache''\<rparr>) ''A'' (Unserializable :: nat any) None (origin 0) = (Rejected TypeError, origin 0)"
  by (simp add: put_Unserializable)

subsection \<open>No connection\<close>

text \<open>
  C6. While \<open>db\<close> is \<open>null\<close>, each of \<open>get\<close>, \<open>put\<close>, \<open>delete\<close> and \<open>flush\<close> rejects with
  \<^verbatim>\<open>Database doesn't exist.\<close>, whatever its arguments, and leaves the world as it
  was: no request reaches the engine, no store changes, nothing is printed.
\<close>

theorem accessors_require_connection:
  "db this = None \<Longrightarrow>
     get this k w = (Rejected DatabaseDoesntExist, w) \<and>
     put this k data e w = (Rejected DatabaseDoesntExist, w) \<and>
     delete this k w = (Rejected DatabaseDoesntExist, w) \<and>
     flush this w = (Rejected DatabaseDoesntExist, w)"
  by (simp add: get_def put_def delete_def flush_def)

theorem accessors_require_connection_witness:
  "db EventCache = None \<and>
   get EventCache ''A'' (origin 0 :: nat world) = (Rejected DatabaseDoesntExist, origin 0) \<and>
   put EventCache ''A'' (Serializable (1::nat)) None (origin 0) = (Rejected DatabaseDoesntExist, origin 0) \<and>
   delete EventCache ''A'' (origin 0 :: nat world) = (Rejected DatabaseDoesntExist, origin 0) \<and>
   flush EventCache (origin 0 :: nat world) = (Rejected DatabaseDoesntExist, origin 0)"
  using accessors_require_connection [of EventCache "''A''" "origin 0 :: nat world" "Serializable (1::nat)" None]
  by (simp add: run_defs world_defs)

subsection \<open>Initialisation\<close>

text \<open>
  C7. On a service that holds a connection, \<open>init\<close> resolves with \<open>true\<close> and changes
  neither the service nor the world, so no request reaches the engine. A service on which
  \<open>init\<close> has resolved with \<open>true\<close> holds a connection, and every later \<open>init\<close> on it is of
  that kind. The call that establishes the connection sends the one open request; when
  the version it asks for is above the database's, the object store is replaced by an
  empty one and the database takes the new version, and otherwise the databases stay as
  they were.
\<close>

theorem init_idempotent:
  "(db this \<noteq> None \<longrightarrow> init this w = (Resolved True, this, w)) \<and>
   (init this w = (Resolved True, this', w') \<longrightarrow>
      db this' \<noteq> None \<and> (\<forall>w''. init this' w'' = (Resolved True, this', w''))) \<and>
   (db this = None \<and> init this w = (Resolved True, this', w') \<longrightarrow>
      this' = this\<lparr>db := Some (dbName this)\<rparr> \<and>
      requests w' = requests w @ [Open (dbName this) (dbVersion this)] \<and>
      databases w' =
        (if version (databases w (dbName this)) < dbVersion this
         then (databases w)(dbName this := \<lparr>version = dbVersion this, CacheStore = Map.empty\<rparr>)
         else databases w))"
proof (intro conjI impI)
  assume "db this \<noteq> None"
  then show "init this w = (Resolved True, this, w)"
    by (auto simp add: init_connected)
next
  assume ok: "init this w = (Resolved True, this', w')"
  show "db this' \<noteq> None"
  proof (cases "db this")
    case None
    from init_first [OF None ok] show ?thesis by simp
  next
    case (Some h)
    with ok show ?thesis by (simp add: init_connected)
  qed
  then show "\<forall>w''. init this' w'' = (Resolved True, this', w'')"
    by (auto simp add: init_connected)
next
  assume a: "db this = None \<and> init this w = (Resolved True, this', w')"
  then have first: "this' = this\<lparr>db := Some (dbName this)\<rparr> \<and>
     w' = (if version (databases w (dbName this)) < dbVersion this
           then setVersion (dbName this) (dbVersion this)
                  (onupgradeneeded this (version (databases w (dbName this)))
                     (send (Open (dbName this) (dbVersion this)) w))
           else send (Open (dbName this) (dbVersion this)) w)"
    using init_first by blast
  then show "this' = this\<lparr>db := Some (dbName this)\<rparr>" by simp
  from first show "requests w' = requests w @ [Open (dbName this) (dbVersion this)]"
    by (simp add: setVersion_def requests_onupgradeneeded)
  from first show "databases w' =
        (if version (databases w (dbName this)) < dbVersion this
         then (databases w)(dbName this := \<lparr>version = dbVersion this, CacheStore = Map.empty\<rparr>)
         else databases w)"
    by (simp add: setVersion_def databases_onupgradeneeded IDBDatabase_fields)
qed

theorem init_idempotent_witness:
  "init EventCache (origin 0 :: nat world) =
     (Resolved True, EventCache\<lparr>db := Some ''EventCache''\<rparr>,
      (origin 0)\<lparr>databases := (databases (origin 0))(''EventCache'' := \<lparr>version = 1, CacheStore = Map.empty\<rparr>),
                  requests := [Open ''EventCache'' 1]\<rparr>) \<and>
   init (EventCache\<lparr>db := Some ''EventCache''\<rparr>) (origin 5 :: nat world) =
     (Resolved True, EventCache\<lparr>db := Some ''EventCache''\<rparr>, origin 5)"
  using init_idempotent [of "EventCache\<lparr>db := Some ''EventCache''\<rparr>" "origin 5 :: nat world"
      "EventCache\<lparr>db := Some ''EventCache''\<rparr>" "origin 5"]
  by (simp add: run_defs world_defs init_def onupgradeneeded_def Let_def)

subsection \<open>Verbose logging\<close>

text \<open>
  C9. For each of \<open>init\<close>, \<open>get\<close>, \<open>put\<close>, \<open>delete\<close> and \<open>flush\<close>, on any service, arguments
  and world: the promise is the same with \<open>verbose\<close> true as with \<open>verbose\<close> false, so is
  the connection that \<open>init\<close> leaves, and so is the world apart from the console. With
  \<open>verbose\<close> false the console stays as it was.
\<close>

theorem verbose_gates_only_logging:
  "fst (init (this\<lparr>verbose := True\<rparr>) w) = fst (init (this\<lparr>verbose := False\<rparr>) w) \<and>
   db (fst (snd (init (this\<lparr>verbose := True\<rparr>) w))) = db (fst (snd (init (this\<lparr>verbose := False\<rparr>) w))) \<and>
   silent (snd (snd (init (this\<lparr>verbose := True\<rparr>) w))) = silent (snd (snd (init (this\<lparr>verbose := False\<rparr>) w))) \<and>
   fst (get (this\<lparr>verbose := True\<rparr>) k w) = fst (get (this\<lparr>verbose := False\<rparr>) k w) \<and>
   silent (snd (get (this\<lparr>verbose := True\<rparr>) k w)) = silent (snd (get (this\<lparr>verbose := False\<rparr>) k w)) \<and>
   fst (put (this\<lparr>verbose := True\<rparr>) k data e w) = fst (put (this\<lparr>verbose := False\<rparr>) k data e w) \<and>
   silent (snd (put (this\<lparr>verbose := True\<rparr>) k data e w)) = silent (snd (put (this\<lparr>verbose := False\<rparr>) k data e w)) \<and>
   fst (delete (this\<lparr>verbose := True\<rparr>) k w) = fst (delete (this\<lparr>verbose := False\<rparr>) k w) \<and>
   silent (snd (delete (this\<lparr>verbose := True\<rparr>) k w)) = silent (snd (delete (this\<lparr>verbose := False\<rparr>) k w)) \<and>
   fst (flush (this\<lparr>verbose := True\<rparr>) w) = fst (flush (this\<lparr>verbose := False\<rparr>) w) \<and>
   silent (snd (flush (this\<lparr>verbose := True\<rparr>) w)) = silent (snd (flush (this\<lparr>verbose := False\<rparr>) w)) \<and>
   console (snd (snd (init (this\<lparr>verbose := False\<rparr>) w))) = console w \<and>
   console (snd (get (this\<lparr>verbose := False\<rparr>) k w)) = console w \<and>
   console (snd (put (this\<lparr>verbose := False\<rparr>) k data e w)) = console w \<and>
   console (snd (delete (this\<lparr>verbose := False\<rparr>) k w)) = console w \<and>
   console (snd (flush (this\<lparr>verbose := False\<rparr>) w)) = console w"
  by (simp add: init_verbose get_verbose put_verbose delete_verbose flush_verbose
      init_quiet get_quiet put_quiet delete_quiet flush_quiet)

theorem verbose_gates_only_logging_witness:
  "fst (put (EventCache\<lparr>db := Some ''EventCache'', verbose := True\<rparr>) ''A'' (Serializable (1::nat)) None (origin 0)) =
     fst (put (EventCache\<lparr>db := Some ''EventCache'', verbose := False\<rparr>) ''A'' (Serializable (1::nat)) None (origin 0)) \<and>
   silent (snd (put (EventCache\<lparr>db := Some ''EventCache'', verbose := True\<rparr>) ''A'' (Serializable (1::nat)) None (origin 0))) =
     silent (snd (put (EventCache\<lparr>db := Some ''EventCache'', verbose := False\<rparr>) ''A'' (Serializable (1::nat)) None (origin 0))) \<and>
   console (snd (put (EventCache\<lparr>db := Some ''EventCache'', verbose := True\<rparr>) ''A'' (Serializable (1::nat)) None (origin 0))) =
     [SuccessfullyStored ''A''] \<and>
   console (snd (put (EventCache\<lparr>db := Some ''EventCache'', verbose := False\<rparr>) ''A'' (Serializable (1::nat)) None (origin 0))) = []"
  using verbose_gates_only_logging [of "EventCache\<lparr>db := Some ''EventCache''\<rparr>" "origin 0 :: nat world" "''A''" "Serializable (1::nat)" None]
  by (simp add: run_defs world_defs date_defs put_connected [OF _ createPersistable_Serializable])

subsection \<open>Expirations that have passed\<close>

text \<open>
  C10. \<open>put\<close> stores whatever expiration it is given: on a connected service whose
  engine carries the write out, \<open>put\<close> of a serializable value resolves with \<open>true\<close> and the key holds the value with
  the JSON form of that Date. In any later world with the same databases whose clock has
  reached the expiration (the epoch for an Invalid Date, which is stored as \<open>null\<close>), a
  \<open>get\<close> that the engine answers resolves with \<open>undefined\<close> and sends the delete request,
  and the key is empty once the engine has carried that request out.
\<close>

theorem put_does_not_validate_expiration:
  assumes "db this = Some h" and "\<not> onerror (w :: 'v world) (Put k)"
  shows "fst (put this k (Serializable v) (Some e) w) = Resolved True \<and>
         CacheStore (databases (snd (put this k (Serializable v) (Some e) w)) h) k = Some \<lparr>value = v, expiration = toJSON e\<rparr> \<and>
         (\<forall>w2. databases w2 = databases (snd (put this k (Serializable v) (Some e) w)) \<and> \<not> onerror w2 (Get k) \<and>
               (case e of Date t \<Rightarrow> t \<le> clock w2 | InvalidDate \<Rightarrow> 0 \<le> clock w2) \<longrightarrow>
               fst (get this k w2) = Resolved None \<and>
               requests (snd (get this k w2)) = requests w2 @ [Get k, Delete k] \<and>
               (\<not> onerror w2 (Delete k) \<longrightarrow> CacheStore (databases (snd (get this k w2)) h) k = None))"
proof (intro conjI allI impI)
  show "fst (put this k (Serializable v) (Some e) w) = Resolved True"
    using assms by (simp add: put_connected [OF _ createPersistable_explicit])
  show stored: "CacheStore (databases (snd (put this k (Serializable v) (Some e) w)) h) k = Some \<lparr>value = v, expiration = toJSON e\<rparr>"
    using assms by (simp add: put_connected [OF _ createPersistable_explicit])
  fix w2 :: "'v world"
  assume later: "databases w2 = databases (snd (put this k (Serializable v) (Some e) w)) \<and> \<not> onerror w2 (Get k) \<and>
               (case e of Date t \<Rightarrow> t \<le> clock w2 | InvalidDate \<Rightarrow> 0 \<le> clock w2)"
  then have entry: "CacheStore (databases w2 h) k = Some \<lparr>value = v, expiration = toJSON e\<rparr>"
    using stored by simp
  obtain t where t: "new_Date (expiration \<lparr>value = v, expiration = toJSON e\<rparr>) = Date t" and past: "t \<le> clock w2"
    using later by (cases e) (simp_all add: new_Date_def toJSON_def)
  have g: "get this k w2 = (Resolved None, snd (delete this k (send (Get k) w2)))"
    using get_found [OF assms(1) _ entry t] later past by simp
  show "fst (get this k w2) = Resolved None"
    by (simp add: g)
  show "requests (snd (get this k w2)) = requests w2 @ [Get k, Delete k]"
    by (simp add: g requests_delete [OF assms(1)])
  assume "\<not> onerror w2 (Delete k)"
  then show "CacheStore (databases (snd (get this k w2)) h) k = None"
    by (simp add: g databases_delete [OF assms(1)])
qed

theorem put_does_not_validate_expiration_witness:
  "fst (put (EventCache\<lparr>db := Some ''EventCache''\<rparr>) ''A'' (Serializable (1::nat)) (Some (Date 500)) (origin 1000)) = Resolved True \<and>
   fst (get (EventCache\<lparr>db := Some ''EventCache''\<rparr>) ''A''
          (snd (put (EventCache\<lparr>db := Some ''EventCache''\<rparr>) ''A'' (Serializable (1::nat)) (Some (Date 500)) (origin 1000))))
     = Resolved None \<and>
   CacheStore (databases (snd (get (EventCache\<lparr>db := Some ''EventCache''\<rparr>) ''A''
          (snd (put (EventCache\<lparr>db := Some ''EventCache''\<rparr>) ''A'' (Serializable (1::nat)) (Some (Date 500)) (origin 1000)))))
      ''EventCache'') ''A'' = None"
  using put_does_not_validate_expiration [of "EventCache\<lparr>db := Some ''EventCache''\<rparr>" "''EventCache''"
      "origin 1000" "''A''" "1::nat" "Date 500"]
  by (simp add: run_defs world_defs put_connected [OF _ createPersistable_explicit])

subsection \<open>Date arithmetic\<close>

text \<open>
  C8, as amended. For each of the eight units \<open>dateAdd\<close> returns a Date, and for a value
  that is none of them it returns \<open>undefined\<close>. Year, quarter, month, week and day go
  through the host's local-time setters, with the count of years, three times the count of
  months, the count of months, seven times the count of days, and the count of days. Hour,
  minute and second add the count times 3600000, 60000 and 1000 milliseconds to the time
  value when the sum lies within 8640000000000000 milliseconds of the epoch, and give an
  Invalid Date when it does not.
\<close>

theorem dateAdd_shift:
  "(\<exists>d. dateAdd L date (Some u) units = Some d) \<and>
   dateAdd L date None units = None \<and>
   dateAdd L date (Some year) units = Some (setFullYear L date (plus_number (getFullYear L date) units)) \<and>
   dateAdd L date (Some quarter) units = Some (setMonth L date (plus_number (getMonth L date) (3 * units))) \<and>
   dateAdd L date (Some month) units = Some (setMonth L date (plus_number (getMonth L date) units)) \<and>
   dateAdd L date (Some week) units = Some (setDate L date (plus_number (getDate L date) (7 * units))) \<and>
   dateAdd L date (Some day) units = Some (setDate L date (plus_number (getDate L date) units)) \<and>
   (\<bar>t + units * 3600000\<bar> \<le> 8640000000000000 \<longrightarrow>
      dateAdd L (Date t) (Some hour) units = Some (Date (t + units * 3600000))) \<and>
   (\<bar>t + units * 60000\<bar> \<le> 8640000000000000 \<longrightarrow>
      dateAdd L (Date t) (Some minute) units = Some (Date (t + units * 60000))) \<and>
   (\<bar>t + units * 1000\<bar> \<le> 8640000000000000 \<longrightarrow>
      dateAdd L (Date t) (Some second) units = Some (Date (t + units * 1000))) \<and>
   (8640000000000000 < \<bar>t + units * 3600000\<bar> \<longrightarrow>
      dateAdd L (Date t) (Some hour) units = Some InvalidDate) \<and>
   (8640000000000000 < \<bar>t + units * 60000\<bar> \<longrightarrow>
      dateAdd L (Date t) (Some minute) units = Some InvalidDate) \<and>
   (8640000000000000 < \<bar>t + units * 1000\<bar> \<longrightarrow>
      dateAdd L (Date t) (Some second) units = Some InvalidDate)"
  by (cases u) (simp_all add: dateAdd_def date_defs Let_def)

theorem dateAdd_shift_witness:
  "dateAdd no_calendar (Date 1000) (Some minute) 1 = Some (Date 61000) \<and>
   dateAdd no_calendar (Date 1000) (Some hour) (- 2) = Some (Date (- 7199000)) \<and>
   dateAdd no_calendar (Date 1000) None 1 = None"
  using dateAdd_shift [of no_calendar "Date 1000" minute 1 1000]
    dateAdd_shift [of no_calendar "Date 1000" hour "- 2" 1000]
  by simp

text \<open>
  Adding 2400000001 hours to the epoch leaves the range of time values: the result is an
  Invalid Date, not the epoch shifted by 2400000001 times 3600000 milliseconds.
\<close>

theorem dateAdd_overflow:
  "dateAdd no_calendar (Date 0) (Some hour) 2400000001 = Some InvalidDate \<and>
   dateAdd no_calendar (Date 0) (Some hour) 2400000001 \<noteq> Some (Date (0 + 2400000001 * 3600000))"
  by (simp add: dateAdd_def date_defs)

end
